theory Spec2Isabelle
  imports Complex_Main "HOL-Library.Multiset" "HOL-Library.Word"
begin

section \<open>Yen's k shortest loopless paths (graph/path/yen\_ksp.go)\<close>

subsection \<open>Data model\<close>

text \<open>
  A \<^verbatim>\<open>graph.Node\<close> is only ever read through \<^verbatim>\<open>ID()\<close>, an int64, so a node is its
  identifier and a path (\<^verbatim>\<open>[]graph.Node\<close>) is a list of identifiers.
\<close>

type_synonym node = "64 word"

text \<open>
  Weights are \<^verbatim>\<open>float64\<close> in the source. The model computes with exact reals and one
  extra value \<open>PInf\<close> for \<^verbatim>\<open>+Inf\<close> (what \<^verbatim>\<open>math.IsInf(w, 1)\<close> tests); rounding,
  NaN and \<^verbatim>\<open>-Inf\<close> are outside the model.
\<close>

datatype weight = Fin real | PInf

instantiation weight :: "{zero, plus, linorder}"
begin

definition zero_weight :: weight where
  "zero_weight = Fin 0"

fun plus_weight :: "weight \<Rightarrow> weight \<Rightarrow> weight" where
  "plus_weight (Fin a) (Fin b) = Fin (a + b)"
| "plus_weight PInf b = PInf"
| "plus_weight a PInf = PInf"

fun less_eq_weight :: "weight \<Rightarrow> weight \<Rightarrow> bool" where
  "less_eq_weight (Fin a) (Fin b) = (a \<le> b)"
| "less_eq_weight a PInf = True"
| "less_eq_weight PInf (Fin b) = False"

definition less_weight :: "weight \<Rightarrow> weight \<Rightarrow> bool" where
  "less_weight a b = (a \<le> b \<and> \<not> b \<le> a)"

instance
proof
  fix x y z :: weight
  show "(x < y) = (x \<le> y \<and> \<not> y \<le> x)"
    by (simp add: less_weight_def)
  show "x \<le> x"
    by (cases x) simp_all
  show "x \<le> y \<Longrightarrow> y \<le> z \<Longrightarrow> x \<le> z"
    by (cases x; cases y; cases z) simp_all
  show "x \<le> y \<Longrightarrow> y \<le> x \<Longrightarrow> x = y"
    by (cases x; cases y) simp_all
  show "x \<le> y \<or> y \<le> x"
    by (cases x; cases y) auto
qed

end

instance weight :: ordered_comm_monoid_add
proof
  fix u v w :: weight
  show "u + v = v + u"
    by (cases u; cases v; simp)
  show "u + v + w = u + (v + w)"
    by (cases u; cases v; cases w; simp)
  show "u \<le> v \<Longrightarrow> w + u \<le> w + v"
    by (cases u; cases v; cases w; simp)
  show "0 + u = u"
    unfolding zero_weight_def by (cases u; simp)
qed

text \<open>
  A \<^verbatim>\<open>Weighting\<close> is \<^verbatim>\<open>func(xid, yid int64) (w float64, ok bool)\<close>.
\<close>

type_synonym Weighting = "node \<Rightarrow> node \<Rightarrow> weight \<times> bool"

text \<open>
  What \<^verbatim>\<open>YenKShortestPaths\<close> reads of its argument \<^verbatim>\<open>g graph.Graph\<close>: the neighbours
  \<^verbatim>\<open>g.From(id)\<close>, whether \<^verbatim>\<open>g\<close> is a \<^verbatim>\<open>graph.Directed\<close> (line 24), and the weighting
  chosen at lines 30 to 34 (\<^verbatim>\<open>wg.Weight\<close> of a \<^verbatim>\<open>Weighted\<close> graph, \<^verbatim>\<open>UniformCost(g)\<close>
  otherwise; \<^verbatim>\<open>UniformCost\<close> is not part of this file and is taken as given).

  \<open>gFrom g u\<close> is the slice of neighbours the graph stores for \<open>u\<close>. \<open>gOwnSlice\<close> says what
  \<^verbatim>\<open>graph.NodesOf(g.From(id))\<close> hands out: the graph's own slice (an ordered iterator
  over the stored slice returns it uncopied), or a fresh slice with the same nodes (what
  an iterator over a map builds). Both are taken as given: \<^verbatim>\<open>graph.NodesOf\<close> and the
  iterators are not part of this file.
\<close>

record graph =
  gFrom :: "node \<Rightarrow> node list"
  gDirected :: bool
  gWeight :: Weighting
  gOwnSlice :: bool

text \<open>
  The panics of the program are values. \<open>OraclePanic\<close> stands for a panic raised inside
  \<^verbatim>\<open>DijkstraFromTo\<close>.
\<close>

datatype error = IndexOutOfRange | NilMapAssign | OraclePanic

text \<open>
  \<^verbatim>\<open>yenKSPAdjuster\<close>. A Go map is \<open>None\<close> while nil (reads find nothing, an
  assignment panics) and \<open>Some\<close> of its key set once made.
\<close>

record yenKSPAdjuster =
  Graph :: graph
  isDirected :: bool
  weight :: Weighting
  visitedNodes :: "node set option"
  visitedEdges :: "(node \<times> node) set option"

text \<open>\<^verbatim>\<open>_, blocked := m[key]\<close>\<close>

definition blocked :: "'a \<Rightarrow> 'a set option \<Rightarrow> bool" where
  "blocked key m = (case m of None \<Rightarrow> False | Some s \<Rightarrow> key \<in> s)"

text \<open>\<^verbatim>\<open>m[key] = struct{}{}\<close>\<close>

definition assign :: "'a \<Rightarrow> 'a set option \<Rightarrow> error + 'a set option" where
  "assign key m = (case m of None \<Rightarrow> Inl NilMapAssign | Some s \<Rightarrow> Inr (Some (insert key s)))"

text \<open>\<^verbatim>\<open>yenShortest\<close>: a path and its weight (the field \<^verbatim>\<open>weight\<close> is \<open>pweight\<close> here).\<close>

record yenShortest =
  path :: "node list"
  pweight :: weight

subsection \<open>The masking view\<close>

definition canWalk :: "yenKSPAdjuster \<Rightarrow> node \<Rightarrow> node \<Rightarrow> bool" where
  "canWalk g u v =
     (if blocked v (visitedNodes g) then False
      else \<not> blocked (u, v) (visitedEdges g))"

text \<open>
  The filtering loop of \<^verbatim>\<open>From\<close> (lines 164 to 171) works in place on the slice
  \<^verbatim>\<open>nodes\<close>: a node that cannot be walked to is overwritten by the last one
  (\<^verbatim>\<open>nodes[i] = nodes[len(nodes)-1]\<close>) and the slice is shortened by one. \<open>fromLoop\<close>
  carries the length \<open>n\<close> of the slice and the array behind it, whose length never
  changes, and returns both.
\<close>

function fromLoop ::
  "yenKSPAdjuster \<Rightarrow> node \<Rightarrow> nat \<Rightarrow> nat \<Rightarrow> node list \<Rightarrow> nat \<times> node list" where
  "fromLoop g u i n nodes =
     (if i < n then
        (if canWalk g u (nodes ! i) then fromLoop g u (i + 1) n nodes
         else fromLoop g u i (n - 1) (nodes[i := nodes ! (n - 1)]))
      else (n, nodes))"
  by pat_completeness auto
termination
  by (relation "measure (\<lambda>(g, u, i, n, nodes). n - i)") auto

declare fromLoop.simps [simp del]

text \<open>
  \<^verbatim>\<open>From\<close> returns the neighbours and the view after the call. The array the loop has
  written to is the slice of \<^verbatim>\<open>graph.NodesOf(g.Graph.From(id))\<close>: when that is the
  wrapped graph's own slice, the writes are writes to the wrapped graph.
\<close>

definition From :: "yenKSPAdjuster \<Rightarrow> node \<Rightarrow> node list \<times> yenKSPAdjuster" where
  "From g u =
     (if blocked u (visitedNodes g) then ([], g)
      else
        (let nodes = gFrom (Graph g) u;
             r = fromLoop g u 0 (length nodes) nodes
         in (take (fst r) (snd r),
             if gOwnSlice (Graph g)
             then g\<lparr>Graph := (Graph g)\<lparr>gFrom := (gFrom (Graph g))(u := snd r)\<rparr>\<rparr>
             else g)))"

definition removeNode :: "yenKSPAdjuster \<Rightarrow> node \<Rightarrow> error + yenKSPAdjuster" where
  "removeNode g u =
     (case assign u (visitedNodes g) of
        Inl e \<Rightarrow> Inl e
      | Inr m \<Rightarrow> Inr (g\<lparr>visitedNodes := m\<rparr>))"

definition removeEdge :: "yenKSPAdjuster \<Rightarrow> node \<Rightarrow> node \<Rightarrow> error + yenKSPAdjuster" where
  "removeEdge g u v =
     (case assign (u, v) (visitedEdges g) of
        Inl e \<Rightarrow> Inl e
      | Inr m \<Rightarrow>
          if \<not> isDirected g then
            (case assign (v, u) m of
               Inl e \<Rightarrow> Inl e
             | Inr m' \<Rightarrow> Inr (g\<lparr>visitedEdges := m'\<rparr>))
          else Inr (g\<lparr>visitedEdges := m\<rparr>))"

definition reset :: "yenKSPAdjuster \<Rightarrow> yenKSPAdjuster" where
  "reset g = g\<lparr>visitedNodes := Some {}, visitedEdges := Some {}\<rparr>"

definition Weight :: "yenKSPAdjuster \<Rightarrow> node \<Rightarrow> node \<Rightarrow> weight \<times> bool" where
  "Weight g xid yid = weight g xid yid"

subsection \<open>Path comparison\<close>

text \<open>
  The loop of \<^verbatim>\<open>isSamePath\<close> reads \<^verbatim>\<open>b[i]\<close> for every index of \<^verbatim>\<open>a\<close>; the length test
  before it keeps the read in range.
\<close>

fun samePathLoop :: "node list \<Rightarrow> node list \<Rightarrow> error + bool" where
  "samePathLoop [] b = Inr True"
| "samePathLoop (x # a) [] = Inl IndexOutOfRange"
| "samePathLoop (x # a) (y # b) = (if x \<noteq> y then Inr False else samePathLoop a b)"

definition isSamePath :: "node list \<Rightarrow> node list \<Rightarrow> error + bool" where
  "isSamePath a b = (if length a \<noteq> length b then Inr False else samePathLoop a b)"

subsection \<open>One spur node (lines 52 to 100)\<close>

text \<open>
  Lines 61 to 67: does \<^verbatim>\<open>path\<close> start with \<^verbatim>\<open>root\<close>? The loop reads \<^verbatim>\<open>path[x]\<close> for every
  index \<^verbatim>\<open>x\<close> of \<^verbatim>\<open>root\<close> until the first difference.
\<close>

fun rootMatches :: "node list \<Rightarrow> node list \<Rightarrow> error + bool" where
  "rootMatches p [] = Inr True"
| "rootMatches [] (r # rootp) = Inl IndexOutOfRange"
| "rootMatches (y # p) (r # rootp) = (if y \<noteq> r then Inr False else rootMatches p rootp)"

text \<open>
  Lines 57 to 71: for every accepted path that starts with the root, the edge leaving
  the spur node along it is removed. \<^verbatim>\<open>path[n+1]\<close> is read with no test of its own.
\<close>

fun removeRootEdges ::
  "yenKSPAdjuster \<Rightarrow> nat \<Rightarrow> node list \<Rightarrow> node list list \<Rightarrow> error + yenKSPAdjuster" where
  "removeRootEdges yk n rootp [] = Inr yk"
| "removeRootEdges yk n rootp (p # paths) =
     (if length p \<le> n then removeRootEdges yk n rootp paths
      else
        (case rootMatches p rootp of
           Inl e \<Rightarrow> Inl e
         | Inr ok \<Rightarrow>
             if ok then
               (if n + 1 < length p then
                  (case removeEdge yk (p ! n) (p ! (n + 1)) of
                     Inl e \<Rightarrow> Inl e
                   | Inr yk' \<Rightarrow> removeRootEdges yk' n rootp paths)
                else Inl IndexOutOfRange)
             else removeRootEdges yk n rootp paths))"

text \<open>Lines 72 to 74.\<close>

fun removeNodes :: "yenKSPAdjuster \<Rightarrow> node list \<Rightarrow> error + yenKSPAdjuster" where
  "removeNodes yk [] = Inr yk"
| "removeNodes yk (u # us) =
     (case removeNode yk u of
        Inl e \<Rightarrow> Inl e
      | Inr yk' \<Rightarrow> removeNodes yk' us)"

text \<open>Lines 81 to 85: the weights of the root's edges, summed from the left.\<close>

definition rootWeight :: "yenKSPAdjuster \<Rightarrow> node list \<Rightarrow> weight" where
  "rootWeight yk rootp =
     foldl (\<lambda>acc x. acc + fst (weight yk (rootp ! (x - 1)) (rootp ! x))) 0 [1..<length rootp]"

text \<open>Lines 91 to 97: the search of the candidate pool for the same path.\<close>

fun isNewPot :: "yenShortest list \<Rightarrow> node list \<Rightarrow> error + bool" where
  "isNewPot [] spath = Inr True"
| "isNewPot (c # pot) spath =
     (case isSamePath (path c) spath of
        Inl e \<Rightarrow> Inl e
      | Inr same \<Rightarrow> if same then Inr False else isNewPot pot spath)"

text \<open>
  \<^verbatim>\<open>DijkstraFromTo(from, to, view)\<close> is not part of this file: the algorithm takes it as
  a parameter. It returns a path and its weight, or panics. It reads the view through
  \<^verbatim>\<open>From\<close>; on a graph that hands out its own slices these calls write to the graph,
  which the result of the oracle does not carry, so the properties of whole runs are
  stated for graphs that hand out fresh slices.
\<close>

type_synonym dijkstraFn = "node \<Rightarrow> node \<Rightarrow> yenKSPAdjuster \<Rightarrow> error + (node list \<times> weight)"

text \<open>
  The body of the inner loop for the spur index \<open>n\<close> of the last accepted path
  \<open>prev\<close> (\<^verbatim>\<open>paths[i-1]\<close>). The state is the view and the candidate pool.
\<close>

definition spurStep ::
  "dijkstraFn \<Rightarrow> weight \<Rightarrow> node \<Rightarrow> node list list \<Rightarrow> node list \<Rightarrow>
   yenKSPAdjuster \<times> yenShortest list \<Rightarrow> nat \<Rightarrow> error + (yenKSPAdjuster \<times> yenShortest list)" where
  "spurStep dijkstra cost t paths prev st n =
     (let yk0 = reset (fst st);
          pot = snd st;
          spur = prev ! n;
          rootp = take (n + 1) prev
      in case removeRootEdges yk0 n rootp paths of
           Inl e \<Rightarrow> Inl e
         | Inr yk1 \<Rightarrow>
        (case removeNodes yk1 (take (length rootp - 1) rootp) of
           Inl e \<Rightarrow> Inl e
         | Inr yk \<Rightarrow>
        (case dijkstra spur t yk of
           Inl e \<Rightarrow> Inl e
         | Inr (spath0, weight0) \<Rightarrow>
             if weight0 > cost \<or> weight0 = PInf then Inr (yk, pot)
             else
               (let spath = (if length rootp > 1
                             then take (length rootp - 1) rootp @ spath0 else spath0);
                    w = (if length rootp > 1 then weight0 + rootWeight yk rootp else weight0)
                in case isNewPot pot spath of
                     Inl e \<Rightarrow> Inl e
                   | Inr new \<Rightarrow>
                       if new then Inr (yk, pot @ [\<lparr>path = spath, pweight = w\<rparr>])
                       else Inr (yk, pot)))))"

text \<open>The inner loop (line 51) over the spur indices \<open>ns\<close>.\<close>

fun spurLoop ::
  "dijkstraFn \<Rightarrow> weight \<Rightarrow> node \<Rightarrow> node list list \<Rightarrow> node list \<Rightarrow>
   yenKSPAdjuster \<times> yenShortest list \<Rightarrow> nat list \<Rightarrow> error + (yenKSPAdjuster \<times> yenShortest list)" where
  "spurLoop dijkstra cost t paths prev st [] = Inr st"
| "spurLoop dijkstra cost t paths prev st (n # ns) =
     (case spurStep dijkstra cost t paths prev st n of
        Inl e \<Rightarrow> Inl e
      | Inr st' \<Rightarrow> spurLoop dijkstra cost t paths prev st' ns)"

subsection \<open>The outer loop and the entry point\<close>

text \<open>
  \<^verbatim>\<open>slices.SortFunc\<close> with \<^verbatim>\<open>cmp.Compare\<close> on the weights is from Go's standard
  library and is not stable: the sort is a parameter \<open>srt\<close> of the model.

  \<open>yenBody\<close> is one round of the loop of line 48 (lines 49 to 115): \<open>Inr None\<close> is a
  \<^verbatim>\<open>break\<close>, \<open>Inr (Some _)\<close> the variables \<^verbatim>\<open>yk\<close>, \<^verbatim>\<open>paths\<close> and \<^verbatim>\<open>pot\<close> at the end of the
  round. The loop may run without bound when \<open>k < 0\<close>, so \<open>yenLoop\<close> is a partial
  function: \<open>None\<close> is a run that does not return. The counter \<open>i\<close> is an int64 in the
  source; it counts the accepted paths and cannot wrap before the slice \<^verbatim>\<open>paths\<close>
  outgrows memory, so it is an unbounded integer here.
\<close>

definition yenBody ::
  "(yenShortest list \<Rightarrow> yenShortest list) \<Rightarrow> dijkstraFn \<Rightarrow> weight \<Rightarrow> node \<Rightarrow>
   yenKSPAdjuster \<Rightarrow> int \<Rightarrow> node list list \<Rightarrow> yenShortest list \<Rightarrow>
   error + (yenKSPAdjuster \<times> node list list \<times> yenShortest list) option" where
  "yenBody srt dijkstra cost t yk i paths pot =
     (if i - 1 < 0 \<or> length paths \<le> nat (i - 1) then Inl IndexOutOfRange
      else
        (case spurLoop dijkstra cost t paths (paths ! nat (i - 1)) (yk, pot)
                [0..<length (paths ! nat (i - 1)) - 1] of
           Inl e \<Rightarrow> Inl e
         | Inr st \<Rightarrow>
             if length (snd st) = 0 then Inr None
             else
               (case srt (snd st) of
                  [] \<Rightarrow> Inl IndexOutOfRange
                | best # rest \<Rightarrow>
                    if length (path best) \<le> 1 \<or> pweight best > cost then Inr None
                    else Inr (Some (fst st, paths @ [path best], rest)))))"

partial_function (option) yenLoop ::
  "(yenShortest list \<Rightarrow> yenShortest list) \<Rightarrow> dijkstraFn \<Rightarrow> int \<Rightarrow> weight \<Rightarrow> node \<Rightarrow>
   yenKSPAdjuster \<Rightarrow> int \<Rightarrow> node list list \<Rightarrow> yenShortest list \<Rightarrow>
   (error + node list list) option" where
  "yenLoop srt dijkstra k cost t yk i paths pot =
     (if k < 0 \<or> i < k then
        (case yenBody srt dijkstra cost t yk i paths pot of
           Inl e \<Rightarrow> Some (Inl e)
         | Inr None \<Rightarrow> Some (Inr paths)
         | Inr (Some (yk', paths', pot')) \<Rightarrow>
             yenLoop srt dijkstra k cost t yk' (i + 1) paths' pot')
      else Some (Inr paths))"

declare yenLoop.simps [code]

definition newAdjuster :: "graph \<Rightarrow> yenKSPAdjuster" where
  "newAdjuster g =
     \<lparr>Graph = g, isDirected = gDirected g, weight = gWeight g,
      visitedNodes = None, visitedEdges = None\<rparr>"

definition YenKShortestPaths ::
  "(yenShortest list \<Rightarrow> yenShortest list) \<Rightarrow> dijkstraFn \<Rightarrow> graph \<Rightarrow> int \<Rightarrow> weight \<Rightarrow>
   node \<Rightarrow> node \<Rightarrow> (error + node list list) option" where
  "YenKShortestPaths srt dijkstra g k cost s t =
     (let yk = newAdjuster g
      in case dijkstra s t yk of
           Inl e \<Rightarrow> Some (Inl e)
         | Inr (shortest, w) \<Rightarrow>
             (let cost' = cost + w
              in if length shortest = 0 then Some (Inr [])
                 else if length shortest = 1 then Some (Inr [shortest])
                 else yenLoop srt dijkstra k cost' t yk 1 [shortest] []))"

subsection \<open>Paths, weights and the contracts of what is not in the file\<close>

text \<open>The weight of a path: the sum of the weights of its consecutive edges.\<close>

definition pathWeight :: "Weighting \<Rightarrow> node list \<Rightarrow> weight" where
  "pathWeight wt p = sum_list (map (\<lambda>e. fst (wt (fst e) (snd e))) (zip p (tl p)))"



text \<open>A view of the graph \<open>g\<close>: any suppression state over \<open>g\<close> and its weighting.\<close>

definition viewOf :: "graph \<Rightarrow> yenKSPAdjuster \<Rightarrow> bool" where
  "viewOf g yk = (Graph yk = g \<and> weight yk = gWeight g \<and> isDirected yk = gDirected g)"




subsection \<open>An executable oracle and example graphs\<close>

text \<open>
  Modelled from the spec: an oracle that meets the contract of section 4.2 by
  exhaustive search, to run the algorithm on concrete graphs. \<open>simplePaths n\<close>
  lists the loopless paths of the view from \<open>a\<close> to \<open>b\<close> that avoid \<open>vis\<close> and have
  at most \<open>n\<close> edges; \<open>searchAll\<close> returns the first lightest one.
\<close>

fun simplePaths ::
  "nat \<Rightarrow> yenKSPAdjuster \<Rightarrow> node \<Rightarrow> node list \<Rightarrow> node \<Rightarrow> node list list" where
  "simplePaths 0 yk b vis a = (if a = b then [[a]] else [])"
| "simplePaths (Suc n) yk b vis a =
     (if a = b then [[a]]
      else concat (map (\<lambda>v. map ((#) a) (simplePaths n yk b (a # vis) v))
                     (filter (\<lambda>v. v \<notin> set (a # vis)) (fst (From yk a)))))"

fun lightest :: "Weighting \<Rightarrow> node list \<Rightarrow> node list list \<Rightarrow> node list" where
  "lightest wt p [] = p"
| "lightest wt p (q # qs) =
     (if pathWeight wt q < pathWeight wt p then lightest wt q qs else lightest wt p qs)"

definition searchAll :: "nat \<Rightarrow> dijkstraFn" where
  "searchAll fuel a b yk =
     (case simplePaths fuel yk b [] a of
        [] \<Rightarrow> Inr ([], PInf)
      | p # ps \<Rightarrow> (let q = lightest (Weight yk) p ps in Inr (q, pathWeight (Weight yk) q)))"

text \<open>
  A directed weighted graph given by its edge table. As gonum's weighted graphs do,
  the weighting answers \<open>(0, true)\<close> for a node and itself and \<open>(+Inf, false)\<close> where
  there is no edge, and the neighbours are handed out in a fresh slice.
\<close>

definition tableGraph :: "((node \<times> node) \<times> real) list \<Rightarrow> graph" where
  "tableGraph es =
     \<lparr>gFrom = (\<lambda>u. map (snd \<circ> fst) (filter (\<lambda>e. fst (fst e) = u) es)),
      gDirected = True,
      gWeight = (\<lambda>u v. if u = v then (Fin 0, True)
                 else case map_of es (u, v) of
                        None \<Rightarrow> (PInf, False) | Some w \<Rightarrow> (Fin w, True)),
      gOwnSlice = False\<rparr>"

text \<open>
  The example of section 8 of the specification, with A to E as 0 to 4.
\<close>

definition exGraph :: graph where
  "exGraph =
     tableGraph [((0, 1), 1), ((0, 2), 2), ((1, 3), 1), ((2, 3), 1), ((1, 2), 1), ((3, 4), 1)]"

text \<open>
  A graph with a negative edge that no path from 0 can reach.
\<close>

definition negGraph :: graph where
  "negGraph = tableGraph [((0, 1), 1), ((2, 3), - 1)]"

text \<open>
  A graph that stores the neighbours 1, 2, 3 of node 0 in a slice and hands that slice
  out, with every edge of weight 1.
\<close>

definition ownSliceGraph :: graph where
  "ownSliceGraph =
     \<lparr>gFrom = (\<lambda>u. if u = 0 then [1, 2, 3] else []),
      gDirected = True,
      gWeight = (\<lambda>u v. (Fin 1, True)),
      gOwnSlice = True\<rparr>"

subsection \<open>The view of a spur query and the states of a run\<close>

text \<open>
  What lines 52 to 74 leave in the view for the spur index \<open>n\<close> of the path \<open>prev\<close>:
  the suppressed edges are the edges that leave the spur node along the accepted paths
  that start with the root (in both directions when the graph is not directed), the
  suppressed nodes are the nodes of the root before the spur node.
\<close>

definition rootEdges :: "bool \<Rightarrow> nat \<Rightarrow> node list \<Rightarrow> node list list \<Rightarrow> (node \<times> node) set" where
  "rootEdges dir n r paths =
     (\<Union>p \<in> {p \<in> set paths. n + 1 < length p \<and> take (n + 1) p = r}.
        {(p ! n, p ! (n + 1))} \<union> (if dir then {} else {(p ! (n + 1), p ! n)}))"

definition spurView :: "yenKSPAdjuster \<Rightarrow> nat \<Rightarrow> node list \<Rightarrow> node list list \<Rightarrow> yenKSPAdjuster" where
  "spurView yk n prev paths =
     yk\<lparr>visitedNodes := Some (set (take n prev)),
        visitedEdges := Some (rootEdges (isDirected yk) n (take (n + 1) prev) paths)\<rparr>"




section \<open>Properties\<close>

subsection \<open>The first path decides the early returns\<close>

text \<open>
  C1 (the code does not do this): a graph with a negative edge weight anywhere should
  make \<^verbatim>\<open>YenKShortestPaths\<close> panic before any search. The function has no such test:
  its first action is the oracle call of line 36. On \<open>negGraph\<close>, whose edge from 2
  to 3 weighs \<open>-1\<close> and cannot be reached from 0, the call for one path from 0 to 1
  returns the path 0, 1.
\<close>

theorem negative_edge_no_panic:
  "3 \<in> set (gFrom negGraph 2) \<and> fst (gWeight negGraph 2 3) < 0 \<and>
   YenKShortestPaths (sort_key pweight) (searchAll 4) negGraph 1 (Fin 0) 0 1
     = Some (Inr [[0, 1]])"
  by code_simp

text \<open>
  C7: when the oracle returns the empty path for the first query (the target is
  unreachable), the result is empty for any \<open>k\<close> and no error; when it returns the
  path of the source alone, that path is the only result.
\<close>

theorem unreachable_or_singleton:
  "(dijkstra s t (newAdjuster g) = Inr ([], w) \<longrightarrow>
      YenKShortestPaths srt dijkstra g k cost s t = Some (Inr [])) \<and>
   (dijkstra s t (newAdjuster g) = Inr ([s], w) \<longrightarrow>
      YenKShortestPaths srt dijkstra g k cost s t = Some (Inr [[s]]))"
  by (simp add: YenKShortestPaths_def)

theorem unreachable_or_singleton_witness:
  "YenKShortestPaths (sort_key pweight) (searchAll 5) exGraph 3 PInf 4 0 = Some (Inr []) \<and>
   YenKShortestPaths (sort_key pweight) (searchAll 5) exGraph 3 PInf 0 0 = Some (Inr [[0]])"
proof -
  have a: "searchAll 5 4 0 (newAdjuster exGraph) = Inr ([], PInf)"
    by code_simp
  have b: "searchAll 5 0 0 (newAdjuster exGraph) = Inr ([0], Fin 0)"
    by code_simp
  show ?thesis
    using unreachable_or_singleton [of "searchAll 5" 4 0 exGraph PInf "sort_key pweight" 3 PInf]
      unreachable_or_singleton [of "searchAll 5" 0 0 exGraph "Fin 0" "sort_key pweight" 3 PInf]
      a b
    by simp
qed

text \<open>
  C9: with \<open>k = 0\<close> and a first path that is not empty, the result is that one path, as
  with \<open>k = 1\<close>: the count is only tested by the loop condition \<^verbatim>\<open>i < k\<close>, after the
  first path has been accepted.
\<close>

theorem k_zero_returns_shortest:
  "dijkstra s t (newAdjuster g) = Inr (p, w) \<Longrightarrow> p \<noteq> [] \<Longrightarrow>
   YenKShortestPaths srt dijkstra g 0 cost s t = Some (Inr [p]) \<and>
   YenKShortestPaths srt dijkstra g 1 cost s t = Some (Inr [p])"
  by (simp add: YenKShortestPaths_def
      yenLoop.simps [of srt dijkstra 0 "cost + w" t "newAdjuster g" 1 "[p]" "[]"]
      yenLoop.simps [of srt dijkstra 1 "cost + w" t "newAdjuster g" 1 "[p]" "[]"])

theorem k_zero_returns_shortest_witness:
  "YenKShortestPaths (sort_key pweight) (searchAll 5) exGraph 0 PInf 0 4
     = Some (Inr [[0, 1, 3, 4]]) \<and>
   YenKShortestPaths (sort_key pweight) (searchAll 5) exGraph 1 PInf 0 4
     = Some (Inr [[0, 1, 3, 4]])"
proof -
  have a: "searchAll 5 0 4 (newAdjuster exGraph) = Inr ([0, 1, 3, 4], Fin 3)"
    by code_simp
  show ?thesis
    using k_zero_returns_shortest
      [of "searchAll 5" 0 4 exGraph "[0, 1, 3, 4]" "Fin 3" "sort_key pweight" PInf] a
    by simp
qed

subsection \<open>The masking view\<close>

text \<open>
  \<^verbatim>\<open>reset\<close>, \<^verbatim>\<open>removeNode\<close> and \<^verbatim>\<open>removeEdge\<close> return a view with the same wrapped graph and
  the same weight function, and \<^verbatim>\<open>Weight\<close> is that weight function whatever is
  suppressed.
\<close>

lemma suppression_keeps_graph:
  "Graph (reset yk) = Graph yk \<and> weight (reset yk) = weight yk \<and>
   (removeNode yk u = Inr yk' \<longrightarrow> Graph yk' = Graph yk \<and> weight yk' = weight yk) \<and>
   (removeEdge yk u v = Inr yk'' \<longrightarrow> Graph yk'' = Graph yk \<and> weight yk'' = weight yk)"
  by (auto simp: reset_def removeNode_def removeEdge_def assign_def
      split: option.splits if_splits sum.splits)

text \<open>
  C8 (the code does not do this): no operation of the view should change the wrapped
  graph, as the comment on \<^verbatim>\<open>yenKSPAdjuster\<close> (lines 140 and 141) also says. \<^verbatim>\<open>From\<close>
  does: it filters in place the slice it gets from \<^verbatim>\<open>graph.NodesOf\<close>. On
  \<open>ownSliceGraph\<close>, whose node 0 stores the neighbours 1, 2, 3, with the edge from 0 to 1
  suppressed, \<^verbatim>\<open>From(0)\<close> returns 3, 2 and leaves 3, 2, 3 in the wrapped graph, which
  has lost the edge from 0 to 1 for every later query.
\<close>

theorem From_alters_wrapped_graph:
  "\<exists>yk. removeEdge (reset (newAdjuster ownSliceGraph)) 0 1 = Inr yk \<and>
     gFrom (Graph yk) 0 = [1, 2, 3] \<and>
     fst (From yk 0) = [3, 2] \<and>
     gFrom (Graph (snd (From yk 0))) 0 = [3, 2, 3]"
proof -
  let ?yk = "(reset (newAdjuster ownSliceGraph))\<lparr>visitedEdges := Some {(0, 1)}\<rparr>"
  have e: "removeEdge (reset (newAdjuster ownSliceGraph)) 0 1 = Inr ?yk"
    by (simp add: removeEdge_def assign_def reset_def newAdjuster_def ownSliceGraph_def)
  have g: "gFrom (Graph ?yk) 0 = [1, 2, 3]"
    by (simp add: reset_def newAdjuster_def ownSliceGraph_def)
  have f: "fst (From ?yk 0) = [3, 2]"
    by code_simp
  have h: "gFrom (Graph (snd (From ?yk 0))) 0 = [3, 2, 3]"
    by code_simp
  from e g f h show ?thesis by blast
qed

text \<open>
  C10: in the loop that matches the accepted paths against the root (lines 57 to
  71), the read \<^verbatim>\<open>path[n+1]\<close> is in range. A loopless path that ends at the target,
  is longer than \<open>n\<close> (the test of line 58) and starts with the \<open>n + 1\<close> nodes of the
  root, whose last node, the spur, is not the target, has at least \<open>n + 2\<close> nodes.
\<close>

lemma rootMatches_take:
  "rootMatches p r = Inr True \<Longrightarrow> take (length r) p = r"
  by (induction p r rule: rootMatches.induct) (auto split: if_splits)

theorem spur_edge_in_range:
  assumes "distinct p" and "last p = t" and "n < length p"
    and "rootMatches p r = Inr True" and "length r = n + 1" and "last r \<noteq> t"
  shows "n + 1 < length p"
proof (rule ccontr)
  assume "\<not> n + 1 < length p"
  with assms(3) have "length p = n + 1" by simp
  with rootMatches_take [OF assms(4)] assms(5) have "p = r" by simp
  with assms(2,6) show False by simp
qed

theorem spur_edge_in_range_witness:
  "rootMatches [0, 1, 3, 4] [0, 1] = Inr True \<and> (1::nat) + 1 < length [0, 1, 3, 4 :: node]"
proof -
  have m: "rootMatches [0, 1, 3, 4] [0, 1] = Inr True"
    by simp
  from spur_edge_in_range [of "[0, 1, 3, 4]" 4 1 "[0, 1]", OF _ _ _ m] m
  show ?thesis by simp
qed

subsection \<open>Path comparison and the neighbours of the view\<close>







subsection \<open>The view of a spur query\<close>

text \<open>
  After \<^verbatim>\<open>reset\<close> the maps are made, so the suppressions of lines 57 to 74 do not panic
  and leave the view \<open>spurView\<close>; with it the body of the inner loop is the oracle call
  followed by the test of the pool.
\<close>

lemma rootEdges_Nil [simp]: "rootEdges dir n r [] = {}"
  by (simp add: rootEdges_def)









lemma viewOf_spurView [simp]: "viewOf g (spurView yk n prev paths) = viewOf g yk"
  by (simp add: viewOf_def spurView_def)





subsection \<open>Splicing a spur path onto the root\<close>










subsection \<open>The invariant of the outer loop\<close>

lemma spurView_spurView [simp]:
  "spurView (spurView yk m prev' paths') n prev paths = spurView yk n prev paths"
  by (simp add: spurView_def)












subsection \<open>The outer loop returns\<close>








subsection \<open>The exhaustive oracle meets its contract\<close>


















subsection \<open>Loopless, distinct, shortest first\<close>







end
